theory Spec2Isabelle
  imports Complex_Main
begin

section \<open>Python values, exceptions and the file system\<close>

text \<open>
  Both modules are dynamically typed adapters: an attribute of an instance holds whatever
  value was last assigned to it. The values that occur are JSON-shaped (what
  \<^verbatim>\<open>json.load\<close> returns) plus references to objects of external libraries
  (a loaded Keras model, an unpickled pipeline), which are opaque here. A float is carried
  by the decimal value of its literal; the code does no arithmetic on floats.
\<close>

datatype pyval =
    PNone
  | PBool bool
  | PInt int
  | PFloat real
  | PStr string
  | PList "pyval list"
  | PDict "(string \<times> pyval) list"
  | PObj nat

text \<open>Every \<^verbatim>\<open>raise\<close> of the source, and of the library calls it makes, is a value.\<close>

datatype error =
    ValueError string
  | FileNotFoundError string
  | TypeError string
  | AttributeError string
  | IsADirectoryError string
  | NotADirectoryError string
  | SameFileError string
  | LibraryError string

fun is_ValueError :: "error \<Rightarrow> bool" where
  "is_ValueError (ValueError _) = True"
| "is_ValueError _ = False"

fun is_FileNotFoundError :: "error \<Rightarrow> bool" where
  "is_FileNotFoundError (FileNotFoundError _) = True"
| "is_FileNotFoundError _ = False"

text \<open>\<^verbatim>\<open>d.get(k, default)\<close> on a dictionary.\<close>

definition dict_get :: "(string \<times> pyval) list \<Rightarrow> string \<Rightarrow> pyval \<Rightarrow> pyval" where
  "dict_get d k dflt = (case map_of d k of None \<Rightarrow> dflt | Some v \<Rightarrow> v)"

text \<open>
  Only a dictionary has \<^verbatim>\<open>.get\<close> and \<^verbatim>\<open>.keys\<close>; on any other JSON value the
  attribute access raises \<^verbatim>\<open>AttributeError\<close>.
\<close>

fun as_dict :: "string \<Rightarrow> pyval \<Rightarrow> error + (string \<times> pyval) list" where
  "as_dict meth (PDict d) = Inr d"
| "as_dict meth _ = Inl (AttributeError meth)"

text \<open>\<^verbatim>\<open>len(v)\<close>: defined on strings, lists and dictionaries.\<close>

fun py_len :: "pyval \<Rightarrow> error + nat" where
  "py_len (PStr s) = Inr (length s)"
| "py_len (PList xs) = Inr (length xs)"
| "py_len (PDict d) = Inr (length (remdups (map fst d)))"
| "py_len _ = Inl (TypeError ''object has no len()'')"

text \<open>
  The file system maps a path, as the string the caller wrote, to a regular file with its
  content or to a directory. Permissions and links are not modelled.
\<close>

datatype node = File string | Dir

type_synonym filesystem = "string \<rightharpoonup> node"

definition os_path_exists :: "filesystem \<Rightarrow> string \<Rightarrow> bool" where
  "os_path_exists fs p = (case fs p of None \<Rightarrow> False | Some _ \<Rightarrow> True)"

definition os_path_join :: "string \<Rightarrow> string \<Rightarrow> string" where
  "os_path_join a b =
     (if b \<noteq> [] \<and> hd b = CHR ''/'' then b
      else if a = [] \<or> last a = CHR ''/'' then a @ b
      else a @ ''/'' @ b)"

definition os_path_dirname :: "string \<Rightarrow> string" where
  "os_path_dirname p =
     (let head = rev (dropWhile (\<lambda>c. c \<noteq> CHR ''/'') (rev p))
      in if head \<noteq> [] \<and> \<not> list_all (\<lambda>c. c = CHR ''/'') head
         then rev (dropWhile (\<lambda>c. c = CHR ''/'') (rev head))
         else head)"

text \<open>\<^verbatim>\<open>open(p, 'r')\<close> followed by reading the whole file.\<close>

definition open_read :: "filesystem \<Rightarrow> string \<Rightarrow> error + string" where
  "open_read fs p =
     (case fs p of
        None \<Rightarrow> Inl (FileNotFoundError p)
      | Some Dir \<Rightarrow> Inl (IsADirectoryError p)
      | Some (File c) \<Rightarrow> Inr c)"

text \<open>\<^verbatim>\<open>open(p, 'wb')\<close> followed by writing the content: the parent directory must exist.\<close>

definition open_write :: "filesystem \<Rightarrow> string \<Rightarrow> string \<Rightarrow> error + filesystem" where
  "open_write fs p c =
     (case fs p of
        Some Dir \<Rightarrow> Inl (IsADirectoryError p)
      | _ \<Rightarrow>
        (let d = os_path_dirname p
         in if d = [] then Inr (fs(p \<mapsto> File c))
            else (case fs d of
                    None \<Rightarrow> Inl (FileNotFoundError p)
                  | Some (File _) \<Rightarrow> Inl (NotADirectoryError p)
                  | Some Dir \<Rightarrow> Inr (fs(p \<mapsto> File c)))))"

text \<open>
  \<^verbatim>\<open>shutil.copyfile(src, dst)\<close>: refuses to copy a file onto itself, then reads the
  source and writes the destination.
\<close>

definition shutil_copyfile :: "filesystem \<Rightarrow> string \<Rightarrow> string \<Rightarrow> error + filesystem" where
  "shutil_copyfile fs src dst =
     (if src = dst then Inl (SameFileError src)
      else (case open_read fs src of
              Inl e \<Rightarrow> Inl e
            | Inr c \<Rightarrow> open_write fs dst c))"


section \<open>The dense regressor (\<^verbatim>\<open>model_dense_regressor.py\<close>)\<close>

subsection \<open>The network description handed to Keras\<close>

text \<open>
  The Keras constructors are symbolic: a layer is its constructor with its arguments, a
  tensor of the functional API is the input or a layer applied to a tensor, and a model
  is its inputs and outputs together with what \<^verbatim>\<open>compile\<close> stored in it.
\<close>

datatype layer =
    Dense nat "string option" string
  | BatchNormalization real
  | ELU real
  | Dropout real

datatype tensor =
    Input nat
  | Apply layer tensor

datatype optimizer = Adam pyval pyval

datatype metric = MetricName string | MetricFunction string

record keras_model =
  inputs :: tensor
  outputs :: "tensor list"
  optimizer :: "optimizer option"
  loss :: "string option"
  metrics :: "metric list"

definition Model :: "tensor \<Rightarrow> tensor list \<Rightarrow> keras_model" where
  "Model i os = \<lparr>inputs = i, outputs = os, optimizer = None, loss = None, metrics = []\<rparr>"

definition compile :: "keras_model \<Rightarrow> optimizer \<Rightarrow> string \<Rightarrow> metric list \<Rightarrow> keras_model" where
  "compile m opt l ms = m\<lparr>optimizer := Some opt, loss := Some l, metrics := ms\<rparr>"

text \<open>The layers between the input and a tensor, first applied first.\<close>

fun layers_of :: "tensor \<Rightarrow> layer list" where
  "layers_of (Input n) = []"
| "layers_of (Apply l t) = layers_of t @ [l]"

fun input_of :: "tensor \<Rightarrow> tensor" where
  "input_of (Input n) = Input n"
| "input_of (Apply l t) = input_of t"

text \<open>The calls that leave the function: logging, the summary, the picture, file access.\<close>

datatype event =
    LoggerInfo string pyval
  | ModelSummary keras_model
  | SaveModelPng keras_model
  | OpenFile string
  | LoadModelKeras string
  | CopyFile string string

definition logging_ERROR :: int where
  "logging_ERROR = 40"

subsection \<open>\<^verbatim>\<open>_get_model\<close>\<close>

text \<open>
  The instance is its attribute dictionary; the effective level of its logger is passed
  beside it. The result is the list of calls made and the model, or the exception.
\<close>

type_synonym instance_state = "string \<rightharpoonup> pyval"

definition get_model :: "int \<Rightarrow> instance_state \<Rightarrow> event list \<times> (error + keras_model)" where
  "get_model effective_level self =
     (case self ''x_col'' of
        None \<Rightarrow> ([], Inl (AttributeError ''x_col''))
      | Some x_col \<Rightarrow>
     (case py_len x_col of
        Inl e \<Rightarrow> ([], Inl e)
      | Inr input_dim \<Rightarrow>
     (let input_layer = Input input_dim;
          x = Apply (Dense 64 None ''he_uniform'') input_layer;
          x = Apply (BatchNormalization 0.9) x;
          x = Apply (ELU 1.0) x;
          x = Apply (Dropout 0.2) x;
          x = Apply (Dense 64 None ''he_uniform'') x;
          x = Apply (BatchNormalization 0.9) x;
          x = Apply (ELU 1.0) x;
          x = Apply (Dropout 0.2) x;
          activation = None;
          out = Apply (Dense 1 activation ''glorot_uniform'') x;
          model = Model input_layer [out]
      in
     (case self ''keras_params'' of
        None \<Rightarrow> ([], Inl (AttributeError ''keras_params''))
      | Some kp \<Rightarrow>
     (case as_dict ''keys'' kp of
        Inl e \<Rightarrow> ([], Inl e)
      | Inr keras_params \<Rightarrow>
     (let lr = (case map_of keras_params ''learning_rate'' of
                  Some v \<Rightarrow> v | None \<Rightarrow> PFloat 0.001);
          decay = (case map_of keras_params ''decay'' of
                  Some v \<Rightarrow> v | None \<Rightarrow> PFloat 0.0);
          logged = [LoggerInfo ''Learning rate: '' lr, LoggerInfo ''Decay: '' decay];
          optimizer = Adam lr decay;
          loss = ''mean_squared_error'';
          metrics = [MetricName ''mean_squared_error'', MetricName ''mean_absolute_error'',
                     MetricFunction ''utils_deep_keras.root_mean_squared_error''];
          model = compile model optimizer loss metrics;
          summarised = (if effective_level < logging_ERROR then [ModelSummary model] else [])
      in
     (case self ''level_save'' of
        None \<Rightarrow> (logged @ summarised, Inl (AttributeError ''level_save''))
      | Some level_save \<Rightarrow>
          (logged @ summarised @
             (if level_save \<in> set [PStr ''MEDIUM'', PStr ''HIGH''] then [SaveModelPng model] else []),
           Inr model))))))))"

subsection \<open>\<^verbatim>\<open>reload_from_standalone\<close>\<close>

text \<open>
  The three library loaders are parameters: the JSON parser and the unpickler take the
  content read from the file, the Keras loader takes the file system, the path and the
  custom objects. Each may raise.
\<close>

record libs =
  json_load :: "string \<Rightarrow> error + pyval"
  load_model_keras :: "filesystem \<Rightarrow> string \<Rightarrow> pyval \<Rightarrow> error + pyval"
  pickle_load :: "string \<Rightarrow> error + pyval"

text \<open>
  A keyword argument is a path or \<^verbatim>\<open>None\<close>, as the docstring declares;
  \<^verbatim>\<open>kwargs.get(k, None)\<close> does not tell an absent key from a \<^verbatim>\<open>None\<close> value.
\<close>

type_synonym kwargs = "string \<rightharpoonup> string option"

definition kwargs_get :: "kwargs \<Rightarrow> string \<Rightarrow> string option" where
  "kwargs_get kw k = (case kw k of None \<Rightarrow> None | Some v \<Rightarrow> v)"

text \<open>The section \<^verbatim>\<open># Checks\<close>: three tests for \<^verbatim>\<open>None\<close>, then three for existence.\<close>

definition checks ::
  "filesystem \<Rightarrow> string option \<Rightarrow> string option \<Rightarrow> string option \<Rightarrow> error + (string \<times> string \<times> string)" where
  "checks fs configuration_path hdf5_path preprocess_pipeline_path =
     (case configuration_path of
        None \<Rightarrow> Inl (ValueError ''The argument configuration_path can't be None'')
      | Some c \<Rightarrow>
     (case hdf5_path of
        None \<Rightarrow> Inl (ValueError ''The argument hdf5_path can't be None'')
      | Some h \<Rightarrow>
     (case preprocess_pipeline_path of
        None \<Rightarrow> Inl (ValueError ''The argument preprocess_pipeline_path can't be None'')
      | Some p \<Rightarrow>
          if \<not> os_path_exists fs c then Inl (FileNotFoundError (''The file '' @ c @ '' does not exist''))
          else if \<not> os_path_exists fs h then Inl (FileNotFoundError (''The file '' @ h @ '' does not exist''))
          else if \<not> os_path_exists fs p then Inl (FileNotFoundError (''The file '' @ p @ '' does not exist''))
          else Inr (c, h, p))))"

text \<open>
  The loop over the eleven attribute names: \<^verbatim>\<open>getattr(self, attribute)\<close> is evaluated
  before \<^verbatim>\<open>configs.get\<close>, so an attribute the instance lacks raises even when the file
  has the key.
\<close>

definition reloaded_attributes :: "string list" where
  "reloaded_attributes =
     [''model_type'', ''x_col'', ''y_col'', ''columns_in'', ''mandatory_columns'',
      ''level_save'', ''batch_size'', ''epochs'', ''validation_split'', ''patience'',
      ''keras_params'']"

fun set_attributes :: "(string \<times> pyval) list \<Rightarrow> string list \<Rightarrow> instance_state \<Rightarrow> error option \<times> instance_state" where
  "set_attributes configs [] self = (None, self)"
| "set_attributes configs (attribute # rest) self =
     (case self attribute of
        None \<Rightarrow> (Some (AttributeError attribute), self)
      | Some current \<Rightarrow>
          set_attributes configs rest (self(attribute \<mapsto> dict_get configs attribute current)))"

text \<open>The section \<^verbatim>\<open># Set class vars\<close>.\<close>

definition set_class_vars :: "pyval \<Rightarrow> instance_state \<Rightarrow> error option \<times> instance_state" where
  "set_class_vars loaded self =
     (case as_dict ''get'' loaded of
        Inl e \<Rightarrow> (Some e, self)
      | Inr configs \<Rightarrow>
          (let self = self(''nb_fit'' \<mapsto> dict_get configs ''nb_fit'' (PInt 1));
               self = self(''trained'' \<mapsto> dict_get configs ''trained'' (PBool True))
           in set_attributes configs reloaded_attributes self))"

record outcome =
  raised :: "error option"
  instance_after :: instance_state
  disk_after :: filesystem
  calls :: "event list"

text \<open>
  The sections \<^verbatim>\<open># Reload model\<close>, \<^verbatim>\<open># Save best hdf5 in new folder\<close> and
  \<^verbatim>\<open># Reload pipeline preprocessing\<close>, entered with the attributes already set.
\<close>

definition reload_artifacts ::
  "libs \<Rightarrow> string \<Rightarrow> string \<Rightarrow> string \<Rightarrow> instance_state \<Rightarrow> filesystem \<Rightarrow> outcome" where
  "reload_artifacts L c h p self fs =
     (case self ''custom_objects'' of
        None \<Rightarrow> \<lparr>raised = Some (AttributeError ''custom_objects''), instance_after = self,
                 disk_after = fs, calls = [OpenFile c]\<rparr>
      | Some custom_objects \<Rightarrow>
     (case load_model_keras L fs h custom_objects of
        Inl e \<Rightarrow> \<lparr>raised = Some e, instance_after = self, disk_after = fs,
                  calls = [OpenFile c, LoadModelKeras h]\<rparr>
      | Inr m \<Rightarrow>
     (let self = self(''model'' \<mapsto> m)
      in
     (case self ''model_dir'' of
        None \<Rightarrow> \<lparr>raised = Some (AttributeError ''model_dir''), instance_after = self,
                 disk_after = fs, calls = [OpenFile c, LoadModelKeras h]\<rparr>
      | Some (PStr model_dir) \<Rightarrow>
         (let new_hdf5_path = os_path_join model_dir ''best.hdf5''
          in
         (case shutil_copyfile fs h new_hdf5_path of
            Inl e \<Rightarrow> \<lparr>raised = Some e, instance_after = self, disk_after = fs,
                      calls = [OpenFile c, LoadModelKeras h, CopyFile h new_hdf5_path]\<rparr>
          | Inr fs \<Rightarrow>
         (case open_read fs p of
            Inl e \<Rightarrow> \<lparr>raised = Some e, instance_after = self, disk_after = fs,
                      calls = [OpenFile c, LoadModelKeras h, CopyFile h new_hdf5_path, OpenFile p]\<rparr>
          | Inr pickled \<Rightarrow>
         (case pickle_load L pickled of
            Inl e \<Rightarrow> \<lparr>raised = Some e, instance_after = self, disk_after = fs,
                      calls = [OpenFile c, LoadModelKeras h, CopyFile h new_hdf5_path, OpenFile p]\<rparr>
          | Inr pipeline \<Rightarrow>
              \<lparr>raised = None, instance_after = self(''preprocess_pipeline'' \<mapsto> pipeline),
               disk_after = fs,
               calls = [OpenFile c, LoadModelKeras h, CopyFile h new_hdf5_path, OpenFile p]\<rparr>))))
      | Some _ \<Rightarrow> \<lparr>raised = Some (TypeError ''expected str, bytes or os.PathLike object''),
                   instance_after = self, disk_after = fs,
                   calls = [OpenFile c, LoadModelKeras h]\<rparr>))))"

definition reload_from_standalone :: "libs \<Rightarrow> kwargs \<Rightarrow> instance_state \<Rightarrow> filesystem \<Rightarrow> outcome" where
  "reload_from_standalone L kw self fs =
     (let configuration_path = kwargs_get kw ''configuration_path'';
          hdf5_path = kwargs_get kw ''hdf5_path'';
          preprocess_pipeline_path = kwargs_get kw ''preprocess_pipeline_path''
      in
     (case checks fs configuration_path hdf5_path preprocess_pipeline_path of
        Inl e \<Rightarrow> \<lparr>raised = Some e, instance_after = self, disk_after = fs, calls = []\<rparr>
      | Inr (c, h, p) \<Rightarrow>
     (case open_read fs c of
        Inl e \<Rightarrow> \<lparr>raised = Some e, instance_after = self, disk_after = fs, calls = [OpenFile c]\<rparr>
      | Inr content \<Rightarrow>
     (case json_load L content of
        Inl e \<Rightarrow> \<lparr>raised = Some e, instance_after = self, disk_after = fs, calls = [OpenFile c]\<rparr>
      | Inr configs \<Rightarrow>
     (case set_class_vars configs self of
        (Some e, self) \<Rightarrow>
          \<lparr>raised = Some e, instance_after = self, disk_after = fs, calls = [OpenFile c]\<rparr>
      | (None, self) \<Rightarrow> reload_artifacts L c h p self fs)))))"


section \<open>The LIME explainer (\<^verbatim>\<open>model_explainer.py\<close>)\<close>

text \<open>
  The model handed to the explainer is duck-typed: an object is its attributes, and an
  attribute is a piece of data or something that can be called on one argument.
\<close>

datatype attr =
    Data pyval
  | Callable "pyval \<Rightarrow> error + pyval"

type_synonym pyobject = "string \<rightharpoonup> attr"

text \<open>\<^verbatim>\<open>getattr(obj, name, None)\<close>, \<^verbatim>\<open>x is None\<close> and \<^verbatim>\<open>callable(x)\<close>.\<close>

definition getattr_default :: "pyobject \<Rightarrow> string \<Rightarrow> attr" where
  "getattr_default obj name = (case obj name of None \<Rightarrow> Data PNone | Some a \<Rightarrow> a)"

fun is_None :: "attr \<Rightarrow> bool" where
  "is_None (Data PNone) = True"
| "is_None _ = False"

fun callable :: "attr \<Rightarrow> bool" where
  "callable (Callable f) = True"
| "callable (Data v) = False"

datatype lime_text_explainer = LimeTextExplainer attr

record lime_explainer =
  model :: pyobject
  model_conf :: "string \<rightharpoonup> pyval"
  class_names :: attr
  current_class_or_label_index :: int
  explainer :: lime_text_explainer

definition LimeExplainer_init :: "pyobject \<Rightarrow> (string \<rightharpoonup> pyval) \<Rightarrow> error + lime_explainer" where
  "LimeExplainer_init mdl conf =
     (let pred_proba_op = getattr_default mdl ''predict_proba''
      in if is_None pred_proba_op \<or> \<not> callable pred_proba_op
         then Inl (TypeError ''The supplied model must implement a predict_proba() function'')
         else if is_None (getattr_default mdl ''list_classes'')
         then Inl (TypeError ''The supplied model must have a list_classes attribute'')
         else (case mdl ''list_classes'' of
                 None \<Rightarrow> Inl (AttributeError ''list_classes'')
               | Some list_classes \<Rightarrow>
                   Inr \<lparr>model = mdl, model_conf = conf, class_names = list_classes,
                        current_class_or_label_index = 0,
                        explainer = LimeTextExplainer list_classes\<rparr>))"

text \<open>
  What the explainer calls outside this file: the preprocessing registry of the package
  (\<^verbatim>\<open>preprocess.get_preprocessor\<close>, looked up by key, returning a function on a list of
  texts) and the LIME library (the explanation of a text for given labels, and the two
  renderings of an explanation). They are parameters; each may raise.
\<close>

record 'x lime_lib =
  get_preprocessor :: "pyval \<Rightarrow> error + (pyval \<Rightarrow> error + pyval)"
  lime_explain_instance ::
    "lime_text_explainer \<Rightarrow> string \<Rightarrow> (pyval \<Rightarrow> error + pyval) \<Rightarrow> int list \<Rightarrow> int \<Rightarrow> error + 'x"
  as_html :: "'x \<Rightarrow> error + string"
  as_list :: "'x \<Rightarrow> int \<Rightarrow> error + pyval"

definition classifier_fn :: "'x lime_lib \<Rightarrow> lime_explainer \<Rightarrow> pyval \<Rightarrow> error + pyval" where
  "classifier_fn L self content_list =
     (let preprocess_str =
            (case model_conf self ''preprocess_str'' of
               Some v \<Rightarrow> v
             | None \<Rightarrow> PStr ''no_preprocess'')
      in
     (case get_preprocessor L preprocess_str of
        Inl e \<Rightarrow> Inl e
      | Inr preprocessor \<Rightarrow>
     (case preprocessor content_list of
        Inl e \<Rightarrow> Inl e
      | Inr content_prep \<Rightarrow>
     (case model self ''predict_proba'' of
        None \<Rightarrow> Inl (AttributeError ''predict_proba'')
      | Some (Data _) \<Rightarrow> Inl (TypeError ''object is not callable'')
      | Some (Callable predict_proba) \<Rightarrow> predict_proba content_prep))))"

text \<open>
  The three explaining methods assign \<^verbatim>\<open>self.current_class_or_label_index\<close> before
  they call LIME, so each returns the explainer as it is afterwards beside its result.
\<close>

definition explain_instance ::
  "'x lime_lib \<Rightarrow> lime_explainer \<Rightarrow> string \<Rightarrow> int option \<Rightarrow> int \<Rightarrow> lime_explainer \<times> (error + 'x)" where
  "explain_instance L self content class_or_label_index max_features =
     (let self = (case class_or_label_index of
                    Some i \<Rightarrow> self\<lparr>current_class_or_label_index := i\<rparr>
                  | None \<Rightarrow> self\<lparr>current_class_or_label_index := 1\<rparr>)
      in (self, lime_explain_instance L (explainer self) content (classifier_fn L self)
                  [current_class_or_label_index self] max_features))"

definition explain_instance_as_html ::
  "'x lime_lib \<Rightarrow> lime_explainer \<Rightarrow> string \<Rightarrow> int option \<Rightarrow> int \<Rightarrow> lime_explainer \<times> (error + string)" where
  "explain_instance_as_html L self content class_or_label_index max_features =
     (case explain_instance L self content class_or_label_index max_features of
        (self, Inl e) \<Rightarrow> (self, Inl e)
      | (self, Inr explanation) \<Rightarrow> (self, as_html L explanation))"

definition explain_instance_as_list ::
  "'x lime_lib \<Rightarrow> lime_explainer \<Rightarrow> string \<Rightarrow> int option \<Rightarrow> int \<Rightarrow> lime_explainer \<times> (error + pyval)" where
  "explain_instance_as_list L self content class_or_label_index max_features =
     (case explain_instance L self content class_or_label_index max_features of
        (self, Inl e) \<Rightarrow> (self, Inl e)
      | (self, Inr explanation) \<Rightarrow>
          (self, as_list L explanation (current_class_or_label_index self)))"


section \<open>Concrete inputs\<close>

text \<open>
  An instance as its constructor leaves it, a directory tree with the three files of a
  saved model, and stand-ins for the loaders: a parser that knows two documents, a Keras
  loader and an unpickler that return a reference named after the size of what they read.
\<close>

definition example_libs :: libs where
  "example_libs =
     \<lparr>json_load = (\<lambda>s.
        if s = ''{}'' then Inr (PDict [])
        else if s = ''{nb_fit: 3, model_name: other, x_col: [a, b], epochs: null}''
        then Inr (PDict [(''nb_fit'', PInt 3), (''model_name'', PStr ''other''),
                         (''x_col'', PList [PStr ''a'', PStr ''b'']), (''epochs'', PNone)])
        else Inl (ValueError ''Expecting value'')),
      load_model_keras = (\<lambda>fs p custom_objects.
        case fs p of Some (File c) \<Rightarrow> Inr (PObj (length c))
                   | _ \<Rightarrow> Inl (LibraryError ''No file or directory found'')),
      pickle_load = (\<lambda>s. Inr (PObj (length s)))\<rparr>"

definition example_self :: instance_state where
  "example_self =
     [''model_name'' \<mapsto> PStr ''model_dense_regressor_1'',
      ''model_dir'' \<mapsto> PStr ''/models/run'',
      ''nb_fit'' \<mapsto> PInt 0,
      ''trained'' \<mapsto> PBool False,
      ''model_type'' \<mapsto> PStr ''regressor'',
      ''x_col'' \<mapsto> PList [PStr ''age''],
      ''y_col'' \<mapsto> PStr ''y'',
      ''columns_in'' \<mapsto> PNone,
      ''mandatory_columns'' \<mapsto> PNone,
      ''level_save'' \<mapsto> PStr ''HIGH'',
      ''batch_size'' \<mapsto> PInt 64,
      ''epochs'' \<mapsto> PInt 99,
      ''validation_split'' \<mapsto> PFloat 0.2,
      ''patience'' \<mapsto> PInt 5,
      ''keras_params'' \<mapsto> PDict [(''learning_rate'', PFloat 0.01)],
      ''custom_objects'' \<mapsto> PDict [],
      ''model'' \<mapsto> PNone,
      ''preprocess_pipeline'' \<mapsto> PNone]"

definition example_fs :: filesystem where
  "example_fs =
     [''/models/run'' \<mapsto> Dir,
      ''/in/configurations.json'' \<mapsto>
         File ''{nb_fit: 3, model_name: other, x_col: [a, b], epochs: null}'',
      ''/in/empty.json'' \<mapsto> File ''{}'',
      ''/in/best.hdf5'' \<mapsto> File ''weights'',
      ''/in/preprocess_pipeline.pkl'' \<mapsto> File ''pipeline'']"

definition example_kwargs :: kwargs where
  "example_kwargs =
     [''configuration_path'' \<mapsto> Some ''/in/configurations.json'',
      ''hdf5_path'' \<mapsto> Some ''/in/best.hdf5'',
      ''preprocess_pipeline_path'' \<mapsto> Some ''/in/preprocess_pipeline.pkl'']"

text \<open>
  A classifier with two classes, and stand-ins for the preprocessing registry and for
  LIME: the explanation is the pair of the labels and the number of features it was asked
  for, and it lists weights only for a label it holds.
\<close>

definition example_model :: pyobject where
  "example_model =
     [''predict_proba'' \<mapsto> Callable (\<lambda>texts. Inr (PList [PList [PFloat 0.25, PFloat 0.75]])),
      ''list_classes'' \<mapsto> Data (PList [PStr ''neg'', PStr ''pos''])]"

definition example_lime :: "(int list \<times> int) lime_lib" where
  "example_lime =
     \<lparr>get_preprocessor = (\<lambda>k.
        if k = PStr ''no_preprocess'' then Inr (\<lambda>texts. Inr texts)
        else if k = PStr ''drop_all'' then Inr (\<lambda>texts. Inr (PList []))
        else Inl (ValueError ''unknown preprocessing'')),
      lime_explain_instance = (\<lambda>ex content fn labels num_features. Inr (labels, num_features)),
      as_html = (\<lambda>x. Inr ''<html/>''),
      as_list = (\<lambda>x label.
        if label \<in> set (fst x) then Inr (PList [])
        else Inl (LibraryError ''KeyError''))\<rparr>"

definition example_explainer :: lime_explainer where
  "example_explainer =
     \<lparr>model = example_model, model_conf = [''preprocess_str'' \<mapsto> PStr ''drop_all''],
      class_names = Data (PList [PStr ''neg'', PStr ''pos'']),
      current_class_or_label_index = 0,
      explainer = LimeTextExplainer (Data (PList [PStr ''neg'', PStr ''pos'']))\<rparr>"


section \<open>Which attributes a reload can touch\<close>

lemma set_attributes_other:
  "k \<notin> set ks \<Longrightarrow> snd (set_attributes configs ks self) k = self k"
  by (induction ks arbitrary: self) (auto split: option.splits)

lemma set_attributes_present:
  "\<forall>k\<in>set ks. self k \<noteq> None \<Longrightarrow> distinct ks \<Longrightarrow>
     fst (set_attributes configs ks self) = None
     \<and> (\<forall>k\<in>set ks. snd (set_attributes configs ks self) k
                         = Some (dict_get configs k (the (self k))))"
proof (induction ks arbitrary: self)
  case Nil
  then show ?case by simp
next
  case (Cons a ks)
  from Cons.prems obtain cur where cur: "self a = Some cur" by auto
  let ?self' = "self(a \<mapsto> dict_get configs a cur)"
  have pres: "\<forall>k\<in>set ks. ?self' k \<noteq> None" using Cons.prems by auto
  have dist: "distinct ks" and notin: "a \<notin> set ks" using Cons.prems by auto
  note IH = Cons.IH [OF pres dist]
  have step: "set_attributes configs (a # ks) self = set_attributes configs ks ?self'"
    using cur by simp
  have here: "snd (set_attributes configs ks ?self') a = Some (dict_get configs a cur)"
    using set_attributes_other [OF notin, of configs ?self'] by simp
  have there: "\<forall>k\<in>set ks. snd (set_attributes configs ks ?self') k
                  = Some (dict_get configs k (the (self k)))"
  proof
    fix k assume k: "k \<in> set ks"
    then have "k \<noteq> a" using notin by blast
    then have "?self' k = self k" by simp
    then show "snd (set_attributes configs ks ?self') k = Some (dict_get configs k (the (self k)))"
      using IH k by metis
  qed
  have ok: "fst (set_attributes configs ks ?self') = None"
    using IH by blast
  have "\<forall>k\<in>set (a # ks). snd (set_attributes configs ks ?self') k
                  = Some (dict_get configs k (the (self k)))"
  proof
    fix k assume "k \<in> set (a # ks)"
    then consider "k = a" | "k \<in> set ks" by auto
    then show "snd (set_attributes configs ks ?self') k = Some (dict_get configs k (the (self k)))"
    proof cases
      case 1
      then show ?thesis using here cur by simp
    next
      case 2
      then show ?thesis using there by blast
    qed
  qed
  with ok show ?case unfolding step by blast
qed

lemma reload_artifacts_frame:
  "k \<noteq> ''model'' \<Longrightarrow> k \<noteq> ''preprocess_pipeline'' \<Longrightarrow>
     instance_after (reload_artifacts L c h p self fs) k = self k"
  by (simp add: reload_artifacts_def Let_def
           split: option.splits sum.splits pyval.splits)

lemma set_class_vars_frame:
  "k \<noteq> ''nb_fit'' \<Longrightarrow> k \<noteq> ''trained'' \<Longrightarrow> k \<notin> set reloaded_attributes \<Longrightarrow>
     snd (set_class_vars loaded self) k = self k"
  by (cases loaded) (simp_all add: set_class_vars_def Let_def set_attributes_other)

lemma reload_from_standalone_frame:
  assumes "k \<noteq> ''nb_fit''" "k \<noteq> ''trained''" "k \<notin> set reloaded_attributes"
    "k \<noteq> ''model''" "k \<noteq> ''preprocess_pipeline''"
  shows "instance_after (reload_from_standalone L kw self fs) k = self k"
proof -
  have a: "\<And>loaded e s. set_class_vars loaded self = (e, s) \<Longrightarrow> s k = self k"
    using set_class_vars_frame [OF assms(1-3)] by (metis snd_conv)
  show ?thesis
    using a reload_artifacts_frame [OF assms(4,5)]
    by (auto simp add: reload_from_standalone_def Let_def
           split: option.splits sum.splits prod.splits)
qed

text \<open>
  C9. \<^verbatim>\<open>reload_from_standalone\<close> never modifies the attributes \<^verbatim>\<open>model_name\<close> and
  \<^verbatim>\<open>model_dir\<close> of the instance: whatever the keyword arguments, the files and the
  loaders are, and however the call ends, both hold after the call what they held before
  it, also when the configuration file has keys with those names.
\<close>

theorem reload_from_standalone_keeps_name_and_dir:
  "instance_after (reload_from_standalone L kw self fs) ''model_name'' = self ''model_name''
   \<and> instance_after (reload_from_standalone L kw self fs) ''model_dir'' = self ''model_dir''"
  by (simp add: reload_from_standalone_frame reloaded_attributes_def)

theorem reload_from_standalone_keeps_name_and_dir_witness:
  "json_load example_libs ''{nb_fit: 3, model_name: other, x_col: [a, b], epochs: null}''
     = Inr (PDict [(''nb_fit'', PInt 3), (''model_name'', PStr ''other''),
                   (''x_col'', PList [PStr ''a'', PStr ''b'']), (''epochs'', PNone)])
   \<and> instance_after (reload_from_standalone example_libs example_kwargs example_self example_fs)
         ''model_name'' = Some (PStr ''model_dense_regressor_1'')
   \<and> instance_after (reload_from_standalone example_libs example_kwargs example_self example_fs)
         ''model_dir'' = Some (PStr ''/models/run'')"
  using reload_from_standalone_keeps_name_and_dir
          [of example_libs example_kwargs example_self example_fs]
  by (simp add: example_self_def example_libs_def)


section \<open>The constructor of the explainer\<close>

text \<open>
  C2. \<^verbatim>\<open>LimeExplainer.__init__\<close> raises \<^verbatim>\<open>TypeError\<close> if and only if the supplied
  model has no callable \<^verbatim>\<open>predict_proba\<close> attribute or its \<^verbatim>\<open>list_classes\<close>
  attribute is absent or \<^verbatim>\<open>None\<close>; when neither holds it succeeds, and
  \<^verbatim>\<open>class_names\<close> is the \<^verbatim>\<open>list_classes\<close> of the model.
\<close>

theorem LimeExplainer_init_TypeError_iff:
  "((\<exists>msg. LimeExplainer_init mdl conf = Inl (TypeError msg)) \<longleftrightarrow>
      ((\<forall>f. mdl ''predict_proba'' \<noteq> Some (Callable f))
       \<or> mdl ''list_classes'' = None \<or> mdl ''list_classes'' = Some (Data PNone)))
   \<and> ((\<exists>f. mdl ''predict_proba'' = Some (Callable f))
        \<and> mdl ''list_classes'' \<noteq> None \<and> mdl ''list_classes'' \<noteq> Some (Data PNone) \<longrightarrow>
        (\<exists>e. LimeExplainer_init mdl conf = Inr e
             \<and> Some (class_names e) = mdl ''list_classes''
             \<and> model e = mdl \<and> model_conf e = conf))"
proof (cases "mdl ''predict_proba''")
  case None
  then show ?thesis by (simp add: LimeExplainer_init_def getattr_default_def)
next
  case (Some a)
  note pp = this
  show ?thesis
  proof (cases a)
    case (Data v)
    with pp show ?thesis
      by (cases v) (simp_all add: LimeExplainer_init_def getattr_default_def)
  next
    case (Callable f)
    note cf = this
    show ?thesis
    proof (cases "mdl ''list_classes''")
      case None
      with pp cf show ?thesis by (simp add: LimeExplainer_init_def getattr_default_def)
    next
      case (Some lc)
      with pp cf show ?thesis
        by (cases "is_None lc"; cases lc rule: is_None.cases)
           (simp_all add: LimeExplainer_init_def getattr_default_def)
    qed
  qed
qed

theorem LimeExplainer_init_TypeError_iff_witness:
  "(\<exists>e. LimeExplainer_init example_model Map.empty = Inr e
        \<and> class_names e = Data (PList [PStr ''neg'', PStr ''pos'']))
   \<and> (\<exists>msg. LimeExplainer_init (example_model(''list_classes'' \<mapsto> Data PNone)) Map.empty
               = Inl (TypeError msg))"
  using LimeExplainer_init_TypeError_iff [of example_model Map.empty]
        LimeExplainer_init_TypeError_iff [of "example_model(''list_classes'' \<mapsto> Data PNone)" Map.empty]
  by (auto simp add: example_model_def)


section \<open>Validation of the arguments of a reload\<close>

lemmas example_defs =
  example_kwargs_def example_fs_def example_self_def example_libs_def

lemmas reload_defs =
  reload_from_standalone_def reload_artifacts_def set_class_vars_def checks_def
  kwargs_get_def os_path_exists_def open_read_def open_write_def shutil_copyfile_def
  os_path_join_def os_path_dirname_def dict_get_def reloaded_attributes_def Let_def

lemma checks_Inr_iff:
  "checks fs c h p = Inr (c', h', p') \<longleftrightarrow>
     c = Some c' \<and> h = Some h' \<and> p = Some p'
     \<and> os_path_exists fs c' \<and> os_path_exists fs h' \<and> os_path_exists fs p'"
  by (auto simp add: checks_def split: option.splits)

lemma checks_None:
  "c = None \<or> h = None \<or> p = None \<Longrightarrow> \<exists>msg. checks fs c h p = Inl (ValueError msg)"
  by (cases c; cases h; cases p) (simp_all add: checks_def)

lemma checks_missing:
  "\<not> os_path_exists fs c' \<or> \<not> os_path_exists fs h' \<or> \<not> os_path_exists fs p' \<Longrightarrow>
     \<exists>msg. checks fs (Some c') (Some h') (Some p') = Inl (FileNotFoundError msg)"
  by (cases "os_path_exists fs c'"; cases "os_path_exists fs h'"; cases "os_path_exists fs p'")
     (simp_all add: checks_def)

lemma checks_pass:
  "os_path_exists fs c' \<Longrightarrow> os_path_exists fs h' \<Longrightarrow> os_path_exists fs p' \<Longrightarrow>
     checks fs (Some c') (Some h') (Some p') = Inr (c', h', p')"
  by (simp add: checks_def)

lemma checks_Inl:
  "checks fs c h p = Inl e \<Longrightarrow>
     (is_ValueError e \<and> (c = None \<or> h = None \<or> p = None))
     \<or> (is_FileNotFoundError e \<and>
          (\<exists>c' h' p'. c = Some c' \<and> h = Some h' \<and> p = Some p'
             \<and> (\<not> os_path_exists fs c' \<or> \<not> os_path_exists fs h' \<or> \<not> os_path_exists fs p')))"
  by (auto simp add: checks_def split: option.splits if_splits)

lemma reload_artifacts_calls:
  "\<exists>rest. calls (reload_artifacts L c h p self fs) = OpenFile c # rest"
  by (simp add: reload_artifacts_def Let_def split: option.splits sum.splits pyval.splits)

lemma reload_after_checks_calls:
  assumes "checks fs (kwargs_get kw ''configuration_path'') (kwargs_get kw ''hdf5_path'')
             (kwargs_get kw ''preprocess_pipeline_path'') = Inr (c, h, p)"
  shows "\<exists>rest. calls (reload_from_standalone L kw self fs) = OpenFile c # rest"
  using assms reload_artifacts_calls [of L c h p _ fs]
  by (auto simp add: reload_from_standalone_def Let_def split: sum.splits option.splits prod.splits)

lemma reload_failed_checks:
  assumes "checks fs (kwargs_get kw ''configuration_path'') (kwargs_get kw ''hdf5_path'')
             (kwargs_get kw ''preprocess_pipeline_path'') = Inl e"
  shows "reload_from_standalone L kw self fs
           = \<lparr>raised = Some e, instance_after = self, disk_after = fs, calls = []\<rparr>"
  using assms by (simp add: reload_from_standalone_def Let_def)

text \<open>
  What the section \<^verbatim>\<open># Checks\<close> decides. A \<^verbatim>\<open>None\<close> argument raises \<^verbatim>\<open>ValueError\<close>;
  with all three supplied, a path for which \<^verbatim>\<open>os.path.exists\<close> is false raises
  \<^verbatim>\<open>FileNotFoundError\<close>; a call that fails a check has made no call, a call whose six
  checks pass goes on to open the configuration file, and an exception raised before any
  file is opened is one of these two. Existence here is \<^verbatim>\<open>os.path.exists\<close>: it holds of a
  directory as well as of a regular file.
\<close>

lemma reload_from_standalone_validation:
  assumes c: "kwargs_get kw ''configuration_path'' = c"
    and h: "kwargs_get kw ''hdf5_path'' = h"
    and p: "kwargs_get kw ''preprocess_pipeline_path'' = p"
    and r: "reload_from_standalone L kw self fs = r"
  shows "(c = None \<or> h = None \<or> p = None \<longrightarrow>
            (\<exists>msg. raised r = Some (ValueError msg)) \<and> calls r = [])
       \<and> (\<forall>c' h' p'. c = Some c' \<and> h = Some h' \<and> p = Some p'
             \<and> (\<not> os_path_exists fs c' \<or> \<not> os_path_exists fs h' \<or> \<not> os_path_exists fs p')
           \<longrightarrow> (\<exists>msg. raised r = Some (FileNotFoundError msg)) \<and> calls r = [])
       \<and> (\<forall>c' h' p'. c = Some c' \<and> h = Some h' \<and> p = Some p'
             \<and> os_path_exists fs c' \<and> os_path_exists fs h' \<and> os_path_exists fs p'
           \<longrightarrow> (\<exists>rest. calls r = OpenFile c' # rest))
       \<and> (calls r = [] \<longrightarrow>
            (\<exists>e. raised r = Some e
               \<and> ((is_ValueError e \<and> (c = None \<or> h = None \<or> p = None))
                  \<or> (is_FileNotFoundError e \<and>
                       (\<exists>c' h' p'. c = Some c' \<and> h = Some h' \<and> p = Some p'
                          \<and> (\<not> os_path_exists fs c' \<or> \<not> os_path_exists fs h'
                              \<or> \<not> os_path_exists fs p'))))))"
proof -
  have fail: "\<And>e. checks fs c h p = Inl e \<Longrightarrow> raised r = Some e \<and> calls r = []"
    using reload_failed_checks [of fs kw _ L self] c h p r by auto
  have v: "c = None \<or> h = None \<or> p = None \<longrightarrow>
            (\<exists>msg. raised r = Some (ValueError msg)) \<and> calls r = []"
    using checks_None [of c h p fs] fail by blast
  have f: "\<forall>c' h' p'. c = Some c' \<and> h = Some h' \<and> p = Some p'
             \<and> (\<not> os_path_exists fs c' \<or> \<not> os_path_exists fs h' \<or> \<not> os_path_exists fs p')
           \<longrightarrow> (\<exists>msg. raised r = Some (FileNotFoundError msg)) \<and> calls r = []"
    using checks_missing [of fs] fail by blast
  have pass: "\<forall>c' h' p'. c = Some c' \<and> h = Some h' \<and> p = Some p'
             \<and> os_path_exists fs c' \<and> os_path_exists fs h' \<and> os_path_exists fs p'
           \<longrightarrow> (\<exists>rest. calls r = OpenFile c' # rest)"
  proof (intro allI impI)
    fix c' h' p'
    assume a: "c = Some c' \<and> h = Some h' \<and> p = Some p'
             \<and> os_path_exists fs c' \<and> os_path_exists fs h' \<and> os_path_exists fs p'"
    then have "checks fs c h p = Inr (c', h', p')" by (simp add: checks_pass)
    then show "\<exists>rest. calls r = OpenFile c' # rest"
      using reload_after_checks_calls [of fs kw c' h' p' L self] c h p r by simp
  qed
  have only: "calls r = [] \<longrightarrow>
            (\<exists>e. raised r = Some e
               \<and> ((is_ValueError e \<and> (c = None \<or> h = None \<or> p = None))
                  \<or> (is_FileNotFoundError e \<and>
                       (\<exists>c' h' p'. c = Some c' \<and> h = Some h' \<and> p = Some p'
                          \<and> (\<not> os_path_exists fs c' \<or> \<not> os_path_exists fs h'
                              \<or> \<not> os_path_exists fs p')))))"
  proof
    assume nocalls: "calls r = []"
    show "\<exists>e. raised r = Some e
               \<and> ((is_ValueError e \<and> (c = None \<or> h = None \<or> p = None))
                  \<or> (is_FileNotFoundError e \<and>
                       (\<exists>c' h' p'. c = Some c' \<and> h = Some h' \<and> p = Some p'
                          \<and> (\<not> os_path_exists fs c' \<or> \<not> os_path_exists fs h'
                              \<or> \<not> os_path_exists fs p'))))"
    proof (cases "checks fs c h p")
      case (Inl e)
      with fail have "raised r = Some e" by simp
      with checks_Inl [OF Inl] show ?thesis by blast
    next
      case (Inr t)
      obtain c' h' p' where "t = (c', h', p')" by (cases t) auto
      with Inr have "\<exists>rest. calls r = OpenFile c' # rest"
        using reload_after_checks_calls [of fs kw c' h' p' L self] c h p r by simp
      with nocalls show ?thesis by simp
    qed
  qed
  from v f pass only show ?thesis by (intro conjI)
qed

text \<open>
  C1. The claim, with the docstring of \<^verbatim>\<open>reload_from_standalone\<close>, has
  \<^verbatim>\<open>FileNotFoundError\<close> raised during validation whenever a supplied path does not name an
  existing file. The code tests \<^verbatim>\<open>os.path.exists\<close>, which is true of a directory. A
  directory supplied as \<^verbatim>\<open>configuration_path\<close> passes all six checks, and it is
  \<^verbatim>\<open>open\<close>, after the checks, that raises, with \<^verbatim>\<open>IsADirectoryError\<close>. A directory
  supplied as \<^verbatim>\<open>preprocess_pipeline_path\<close> is met only at the last step: the call raises
  \<^verbatim>\<open>IsADirectoryError\<close> after it has set the configuration attributes, replaced
  \<^verbatim>\<open>self.model\<close> and copied the weights into \<^verbatim>\<open>model_dir\<close>.
\<close>

theorem reload_from_standalone_directory_passes_checks:
  "example_fs ''/models/run'' = Some Dir
   \<and> raised (reload_from_standalone example_libs
               (example_kwargs(''configuration_path'' \<mapsto> Some ''/models/run''))
               example_self example_fs) = Some (IsADirectoryError ''/models/run'')
   \<and> calls (reload_from_standalone example_libs
               (example_kwargs(''configuration_path'' \<mapsto> Some ''/models/run''))
               example_self example_fs) = [OpenFile ''/models/run'']
   \<and> raised (reload_from_standalone example_libs
               (example_kwargs(''preprocess_pipeline_path'' \<mapsto> Some ''/models/run''))
               example_self example_fs) = Some (IsADirectoryError ''/models/run'')
   \<and> instance_after (reload_from_standalone example_libs
               (example_kwargs(''preprocess_pipeline_path'' \<mapsto> Some ''/models/run''))
               example_self example_fs) ''model'' = Some (PObj 7)
   \<and> disk_after (reload_from_standalone example_libs
               (example_kwargs(''preprocess_pipeline_path'' \<mapsto> Some ''/models/run''))
               example_self example_fs) ''/models/run/best.hdf5'' = Some (File ''weights'')"
proof -
  have d: "example_fs ''/models/run'' = Some Dir"
    by (simp add: example_fs_def)
  have c: "reload_from_standalone example_libs
             (example_kwargs(''configuration_path'' \<mapsto> Some ''/models/run''))
             example_self example_fs
           = \<lparr>raised = Some (IsADirectoryError ''/models/run''), instance_after = example_self,
              disk_after = example_fs, calls = [OpenFile ''/models/run'']\<rparr>"
    by (simp add: reload_from_standalone_def checks_def kwargs_get_def os_path_exists_def
          open_read_def example_kwargs_def example_fs_def)
  have p1: "raised (reload_from_standalone example_libs
               (example_kwargs(''preprocess_pipeline_path'' \<mapsto> Some ''/models/run''))
               example_self example_fs) = Some (IsADirectoryError ''/models/run'')"
    by (simp add: reload_defs example_defs)
  have p2: "instance_after (reload_from_standalone example_libs
               (example_kwargs(''preprocess_pipeline_path'' \<mapsto> Some ''/models/run''))
               example_self example_fs) ''model'' = Some (PObj 7)"
    by (simp add: reload_defs example_defs)
  have p3: "disk_after (reload_from_standalone example_libs
               (example_kwargs(''preprocess_pipeline_path'' \<mapsto> Some ''/models/run''))
               example_self example_fs) ''/models/run/best.hdf5'' = Some (File ''weights'')"
    by (simp add: reload_defs example_defs)
  show ?thesis
    unfolding c using d p1 p2 p3 by simp
qed

text \<open>
  C8. If \<^verbatim>\<open>reload_from_standalone\<close> raises during its argument and file-existence
  validation, that is if an argument is \<^verbatim>\<open>None\<close> or a supplied path does not exist, the
  exception is a \<^verbatim>\<open>ValueError\<close> or a \<^verbatim>\<open>FileNotFoundError\<close>, every attribute of the
  instance keeps its value, and the file system is unchanged: nothing was opened and no
  file was created in \<^verbatim>\<open>model_dir\<close>.
\<close>

theorem reload_from_standalone_failed_validation_changes_nothing:
  assumes c: "kwargs_get kw ''configuration_path'' = c"
    and h: "kwargs_get kw ''hdf5_path'' = h"
    and p: "kwargs_get kw ''preprocess_pipeline_path'' = p"
    and r: "reload_from_standalone L kw self fs = r"
    and fails: "c = None \<or> h = None \<or> p = None
                \<or> (\<exists>q. (c = Some q \<or> h = Some q \<or> p = Some q) \<and> \<not> os_path_exists fs q)"
  shows "instance_after r = self \<and> disk_after r = fs \<and> calls r = []
         \<and> (\<exists>e. raised r = Some e \<and> (is_ValueError e \<or> is_FileNotFoundError e))"
proof (cases "checks fs c h p")
  case (Inl e)
  then have r': "r = \<lparr>raised = Some e, instance_after = self, disk_after = fs, calls = []\<rparr>"
    using reload_failed_checks [of fs kw e L self] c h p r by simp
  show ?thesis using checks_Inl [OF Inl] unfolding r' by auto
next
  case (Inr t)
  obtain c' h' p' where t: "t = (c', h', p')" by (cases t) auto
  have "c = Some c' \<and> h = Some h' \<and> p = Some p'
     \<and> os_path_exists fs c' \<and> os_path_exists fs h' \<and> os_path_exists fs p'"
    using Inr t checks_Inr_iff by simp
  with fails show ?thesis by auto
qed

theorem reload_from_standalone_failed_validation_changes_nothing_witness:
  "instance_after (reload_from_standalone example_libs (example_kwargs(''hdf5_path'' \<mapsto> None))
                     example_self example_fs) = example_self
   \<and> disk_after (reload_from_standalone example_libs (example_kwargs(''hdf5_path'' \<mapsto> None))
                     example_self example_fs) = example_fs
   \<and> instance_after (reload_from_standalone example_libs example_kwargs
                     example_self Map.empty) = example_self
   \<and> disk_after (reload_from_standalone example_libs example_kwargs
                     example_self Map.empty) = Map.empty"
proof -
  have k: "kwargs_get (example_kwargs(''hdf5_path'' \<mapsto> None)) ''hdf5_path'' = None"
      "kwargs_get example_kwargs ''configuration_path'' = Some ''/in/configurations.json''"
    by (simp_all add: kwargs_get_def example_kwargs_def)
  have e: "\<not> os_path_exists Map.empty ''/in/configurations.json''"
    by (simp add: os_path_exists_def)
  show ?thesis
    using reload_from_standalone_failed_validation_changes_nothing
            [OF refl k(1) refl refl, where L = example_libs and self = example_self
               and fs = example_fs]
          reload_from_standalone_failed_validation_changes_nothing
            [OF k(2) refl refl refl, where L = example_libs and self = example_self
               and fs = Map.empty]
          e
    by blast
qed


section \<open>The configuration attributes after a reload\<close>

lemma reloaded_attributes_distinct: "distinct reloaded_attributes"
  by (simp add: reloaded_attributes_def)

lemma reloaded_attributes_not_fit:
  "k \<in> set reloaded_attributes \<Longrightarrow> k \<noteq> ''nb_fit'' \<and> k \<noteq> ''trained''
      \<and> k \<noteq> ''model'' \<and> k \<noteq> ''preprocess_pipeline''"
  by (auto simp add: reloaded_attributes_def)

lemma set_class_vars_dict:
  assumes present: "\<forall>k\<in>set reloaded_attributes. self k \<noteq> None"
  shows "fst (set_class_vars (PDict configs) self) = None"
    and "snd (set_class_vars (PDict configs) self) ''nb_fit'' = Some (dict_get configs ''nb_fit'' (PInt 1))"
    and "snd (set_class_vars (PDict configs) self) ''trained'' = Some (dict_get configs ''trained'' (PBool True))"
    and "\<forall>k\<in>set reloaded_attributes. snd (set_class_vars (PDict configs) self) k
            = Some (dict_get configs k (the (self k)))"
proof -
  let ?s = "self(''nb_fit'' \<mapsto> dict_get configs ''nb_fit'' (PInt 1),
                 ''trained'' \<mapsto> dict_get configs ''trained'' (PBool True))"
  have eq: "set_class_vars (PDict configs) self = set_attributes configs reloaded_attributes ?s"
    by (simp add: set_class_vars_def)
  have pres: "\<forall>k\<in>set reloaded_attributes. ?s k \<noteq> None"
    using present by simp
  note P = set_attributes_present [OF pres reloaded_attributes_distinct, of configs]
  show "fst (set_class_vars (PDict configs) self) = None"
    unfolding eq using P by blast
  have nf: "''nb_fit'' \<notin> set reloaded_attributes" and tr: "''trained'' \<notin> set reloaded_attributes"
    by (simp_all add: reloaded_attributes_def)
  show "snd (set_class_vars (PDict configs) self) ''nb_fit'' = Some (dict_get configs ''nb_fit'' (PInt 1))"
    unfolding eq set_attributes_other [OF nf] by simp
  show "snd (set_class_vars (PDict configs) self) ''trained'' = Some (dict_get configs ''trained'' (PBool True))"
    unfolding eq set_attributes_other [OF tr] by simp
  show "\<forall>k\<in>set reloaded_attributes. snd (set_class_vars (PDict configs) self) k
            = Some (dict_get configs k (the (self k)))"
  proof
    fix k assume k: "k \<in> set reloaded_attributes"
    then have "?s k = self k" using reloaded_attributes_not_fit [OF k] by simp
    then show "snd (set_class_vars (PDict configs) self) k = Some (dict_get configs k (the (self k)))"
      unfolding eq using P k by metis
  qed
qed

lemma reload_after_load_confs:
  assumes "checks fs (kwargs_get kw ''configuration_path'') (kwargs_get kw ''hdf5_path'')
             (kwargs_get kw ''preprocess_pipeline_path'') = Inr (c, h, p)"
    and "open_read fs c = Inr content"
    and "json_load L content = Inr loaded"
    and "set_class_vars loaded self = (None, s)"
  shows "reload_from_standalone L kw self fs = reload_artifacts L c h p s fs"
  using assms by (simp add: reload_from_standalone_def Let_def)

text \<open>
  C3. When the configuration file is read and parses to a mapping, each of the thirteen
  attributes \<^verbatim>\<open>nb_fit\<close>, \<^verbatim>\<open>trained\<close>, \<^verbatim>\<open>model_type\<close>, \<^verbatim>\<open>x_col\<close>, \<^verbatim>\<open>y_col\<close>,
  \<^verbatim>\<open>columns_in\<close>, \<^verbatim>\<open>mandatory_columns\<close>, \<^verbatim>\<open>level_save\<close>, \<^verbatim>\<open>batch_size\<close>,
  \<^verbatim>\<open>epochs\<close>, \<^verbatim>\<open>validation_split\<close>, \<^verbatim>\<open>patience\<close> and \<^verbatim>\<open>keras_params\<close> holds after
  the call the value of the file when the file has the key, and its default when the file
  lacks the key. The default is what the code passes to \<^verbatim>\<open>configs.get\<close>: \<^verbatim>\<open>1\<close> for
  \<^verbatim>\<open>nb_fit\<close> and \<^verbatim>\<open>True\<close> for \<^verbatim>\<open>trained\<close> (one fit, trained, "by default"), and the
  value the instance holds for the other eleven. This holds however the rest of the call
  ends. The instance has the eleven attributes, as after its constructor.
\<close>

theorem reload_from_standalone_configuration_attributes:
  assumes c: "kwargs_get kw ''configuration_path'' = Some c"
    and h: "kwargs_get kw ''hdf5_path'' = Some h"
    and p: "kwargs_get kw ''preprocess_pipeline_path'' = Some p"
    and ex: "os_path_exists fs c" "os_path_exists fs h" "os_path_exists fs p"
    and rd: "open_read fs c = Inr content"
    and js: "json_load L content = Inr (PDict configs)"
    and present: "\<forall>k \<in> set [''model_type'', ''x_col'', ''y_col'', ''columns_in'',
                    ''mandatory_columns'', ''level_save'', ''batch_size'', ''epochs'',
                    ''validation_split'', ''patience'', ''keras_params'']. self k \<noteq> None"
    and r: "reload_from_standalone L kw self fs = r"
  shows "\<forall>k \<in> set [''nb_fit'', ''trained'', ''model_type'', ''x_col'', ''y_col'', ''columns_in'',
                    ''mandatory_columns'', ''level_save'', ''batch_size'', ''epochs'',
                    ''validation_split'', ''patience'', ''keras_params''].
           instance_after r k =
             (case map_of configs k of
                Some v \<Rightarrow> Some v
              | None \<Rightarrow> if k = ''nb_fit'' then Some (PInt 1)
                        else if k = ''trained'' then Some (PBool True)
                        else self k)"
proof -
  have present': "\<forall>k\<in>set reloaded_attributes. self k \<noteq> None"
    using present unfolding reloaded_attributes_def .
  note S = set_class_vars_dict [OF present', of configs]
  obtain s where s: "set_class_vars (PDict configs) self = (None, s)"
    using S(1) by (cases "set_class_vars (PDict configs) self") auto
  have chk: "checks fs (kwargs_get kw ''configuration_path'') (kwargs_get kw ''hdf5_path'')
             (kwargs_get kw ''preprocess_pipeline_path'') = Inr (c, h, p)"
    using c h p ex by (simp add: checks_pass)
  have r': "r = reload_artifacts L c h p s fs"
    using reload_after_load_confs [OF chk rd js s] r by simp
  have frame: "\<And>k. k \<noteq> ''model'' \<Longrightarrow> k \<noteq> ''preprocess_pipeline'' \<Longrightarrow> instance_after r k = s k"
    unfolding r' by (rule reload_artifacts_frame)
  have nf: "instance_after r ''nb_fit'' = Some (dict_get configs ''nb_fit'' (PInt 1))"
    using frame [of "''nb_fit''"] S(2) s by simp
  have tr: "instance_after r ''trained'' = Some (dict_get configs ''trained'' (PBool True))"
    using frame [of "''trained''"] S(3) s by simp
  have others: "\<forall>k\<in>set reloaded_attributes.
                  instance_after r k = Some (dict_get configs k (the (self k)))"
  proof
    fix k assume k: "k \<in> set reloaded_attributes"
    have "instance_after r k = s k"
      using frame [of k] reloaded_attributes_not_fit [OF k] by simp
    then show "instance_after r k = Some (dict_get configs k (the (self k)))"
      using S(4) s k by simp
  qed
  show ?thesis
  proof
    fix k
    assume "k \<in> set [''nb_fit'', ''trained'', ''model_type'', ''x_col'', ''y_col'', ''columns_in'',
                    ''mandatory_columns'', ''level_save'', ''batch_size'', ''epochs'',
                    ''validation_split'', ''patience'', ''keras_params'']"
    then have "k \<in> set (''nb_fit'' # ''trained'' # reloaded_attributes)"
      unfolding reloaded_attributes_def .
    then consider "k = ''nb_fit''" | "k = ''trained''" | "k \<in> set reloaded_attributes"
      by (simp only: set_simps insert_iff) blast
    then show "instance_after r k =
             (case map_of configs k of
                Some v \<Rightarrow> Some v
              | None \<Rightarrow> if k = ''nb_fit'' then Some (PInt 1)
                        else if k = ''trained'' then Some (PBool True)
                        else self k)"
    proof cases
      case 1
      then show ?thesis using nf by (simp add: dict_get_def split: option.splits)
    next
      case 2
      then show ?thesis using tr by (simp add: dict_get_def split: option.splits)
    next
      case 3
      obtain cur where cur: "self k = Some cur" using present' 3 by auto
      show ?thesis
        using others 3 reloaded_attributes_not_fit [OF 3] cur
        by (simp add: dict_get_def split: option.splits)
    qed
  qed
qed

theorem reload_from_standalone_configuration_attributes_witness:
  "map (instance_after (reload_from_standalone example_libs example_kwargs example_self example_fs))
       [''nb_fit'', ''trained'', ''x_col'', ''epochs'', ''batch_size'']
     = [Some (PInt 3), Some (PBool True), Some (PList [PStr ''a'', PStr ''b'']),
        Some PNone, Some (PInt 64)]"
proof -
  have k: "kwargs_get example_kwargs ''configuration_path'' = Some ''/in/configurations.json''"
      "kwargs_get example_kwargs ''hdf5_path'' = Some ''/in/best.hdf5''"
      "kwargs_get example_kwargs ''preprocess_pipeline_path'' = Some ''/in/preprocess_pipeline.pkl''"
    by (simp_all add: kwargs_get_def example_kwargs_def)
  have e: "os_path_exists example_fs ''/in/configurations.json''"
      "os_path_exists example_fs ''/in/best.hdf5''"
      "os_path_exists example_fs ''/in/preprocess_pipeline.pkl''"
    by (simp_all add: os_path_exists_def example_fs_def)
  have rd: "open_read example_fs ''/in/configurations.json''
              = Inr ''{nb_fit: 3, model_name: other, x_col: [a, b], epochs: null}''"
    by (simp add: open_read_def example_fs_def)
  have js: "json_load example_libs ''{nb_fit: 3, model_name: other, x_col: [a, b], epochs: null}''
              = Inr (PDict [(''nb_fit'', PInt 3), (''model_name'', PStr ''other''),
                         (''x_col'', PList [PStr ''a'', PStr ''b'']), (''epochs'', PNone)])"
    by (simp add: example_libs_def)
  have present: "\<forall>k \<in> set [''model_type'', ''x_col'', ''y_col'', ''columns_in'',
                    ''mandatory_columns'', ''level_save'', ''batch_size'', ''epochs'',
                    ''validation_split'', ''patience'', ''keras_params'']. example_self k \<noteq> None"
    by (simp add: example_self_def)
  note T = reload_from_standalone_configuration_attributes
             [OF k e rd js present refl, THEN bspec]
  have b: "example_self ''batch_size'' = Some (PInt 64)"
    by (simp add: example_self_def)
  show ?thesis
    using T [of "''nb_fit''"] T [of "''trained''"] T [of "''x_col''"] T [of "''epochs''"]
          T [of "''batch_size''"] b
    by simp
qed


section \<open>The artifacts after a successful reload\<close>

lemma shutil_copyfile_Inr:
  "shutil_copyfile fs src dst = Inr fs' \<Longrightarrow>
     \<exists>content. fs src = Some (File content) \<and> fs' = fs(dst \<mapsto> File content)"
  by (auto simp add: shutil_copyfile_def open_read_def open_write_def Let_def
           split: if_splits option.splits node.splits)

lemma open_read_Inr: "open_read fs p = Inr content \<Longrightarrow> fs p = Some (File content)"
  by (auto simp add: open_read_def split: option.splits node.splits)

lemma reload_artifacts_success:
  assumes ok: "raised (reload_artifacts L c h p s fs) = None"
  shows "\<exists>custom_objects model_dir m weights pickled pipeline.
           s ''custom_objects'' = Some custom_objects
         \<and> s ''model_dir'' = Some (PStr model_dir)
         \<and> load_model_keras L fs h custom_objects = Inr m
         \<and> fs h = Some (File weights)
         \<and> disk_after (reload_artifacts L c h p s fs)
              = fs(os_path_join model_dir ''best.hdf5'' \<mapsto> File weights)
         \<and> disk_after (reload_artifacts L c h p s fs) p = Some (File pickled)
         \<and> pickle_load L pickled = Inr pipeline
         \<and> instance_after (reload_artifacts L c h p s fs)
              = s(''model'' \<mapsto> m, ''preprocess_pipeline'' \<mapsto> pipeline)
         \<and> calls (reload_artifacts L c h p s fs)
              = [OpenFile c, LoadModelKeras h,
                 CopyFile h (os_path_join model_dir ''best.hdf5''), OpenFile p]"
proof -
  from ok obtain custom_objects where co: "s ''custom_objects'' = Some custom_objects"
    by (cases "s ''custom_objects''") (simp_all add: reload_artifacts_def)
  from ok co obtain m where m: "load_model_keras L fs h custom_objects = Inr m"
    by (cases "load_model_keras L fs h custom_objects") (simp_all add: reload_artifacts_def)
  from ok co m obtain md where md: "s ''model_dir'' = Some md"
    by (cases "s ''model_dir''") (simp_all add: reload_artifacts_def Let_def)
  from ok co m md obtain model_dir where d: "md = PStr model_dir"
    by (cases md) (simp_all add: reload_artifacts_def Let_def)
  let ?new = "os_path_join model_dir ''best.hdf5''"
  from ok co m md d obtain fs' where cp: "shutil_copyfile fs h ?new = Inr fs'"
    by (cases "shutil_copyfile fs h ?new") (simp_all add: reload_artifacts_def Let_def)
  from ok co m md d cp obtain pickled where rd: "open_read fs' p = Inr pickled"
    by (cases "open_read fs' p") (simp_all add: reload_artifacts_def Let_def)
  from ok co m md d cp rd obtain pipeline where pk: "pickle_load L pickled = Inr pipeline"
    by (cases "pickle_load L pickled") (simp_all add: reload_artifacts_def Let_def)
  have res: "reload_artifacts L c h p s fs =
      \<lparr>raised = None,
       instance_after = s(''model'' \<mapsto> m, ''preprocess_pipeline'' \<mapsto> pipeline),
       disk_after = fs',
       calls = [OpenFile c, LoadModelKeras h, CopyFile h ?new, OpenFile p]\<rparr>"
    using co m md d cp rd pk by (simp add: reload_artifacts_def Let_def)
  from shutil_copyfile_Inr [OF cp] obtain weights
    where w: "fs h = Some (File weights)" and fs': "fs' = fs(?new \<mapsto> File weights)"
    by blast
  have pf: "fs' p = Some (File pickled)" using open_read_Inr [OF rd] .
  show ?thesis
    apply (rule exI [of _ custom_objects], rule exI [of _ model_dir], rule exI [of _ m],
           rule exI [of _ weights], rule exI [of _ pickled], rule exI [of _ pipeline])
    unfolding res using co md d m w fs' pf pk by simp
qed

lemma reload_success_reaches_artifacts:
  assumes ok: "raised (reload_from_standalone L kw self fs) = None"
  shows "\<exists>c h p s. kwargs_get kw ''configuration_path'' = Some c
           \<and> kwargs_get kw ''hdf5_path'' = Some h
           \<and> kwargs_get kw ''preprocess_pipeline_path'' = Some p
           \<and> s ''custom_objects'' = self ''custom_objects''
           \<and> s ''model_dir'' = self ''model_dir''
           \<and> reload_from_standalone L kw self fs = reload_artifacts L c h p s fs"
proof -
  let ?chk = "checks fs (kwargs_get kw ''configuration_path'') (kwargs_get kw ''hdf5_path'')
             (kwargs_get kw ''preprocess_pipeline_path'')"
  from ok obtain t where t: "?chk = Inr t"
    by (cases ?chk) (simp_all add: reload_from_standalone_def Let_def)
  obtain c h p where chp: "t = (c, h, p)" by (cases t) auto
  from ok t chp obtain content where rd: "open_read fs c = Inr content"
    by (cases "open_read fs c") (simp_all add: reload_from_standalone_def Let_def)
  from ok t chp rd obtain loaded where js: "json_load L content = Inr loaded"
    by (cases "json_load L content") (simp_all add: reload_from_standalone_def Let_def)
  obtain e s where sc: "set_class_vars loaded self = (e, s)"
    by (cases "set_class_vars loaded self") auto
  from ok t chp rd js sc have e: "e = None"
    by (cases e) (simp_all add: reload_from_standalone_def Let_def)
  have eq: "reload_from_standalone L kw self fs = reload_artifacts L c h p s fs"
    using reload_after_load_confs [of fs kw c h p content L loaded self s] t chp rd js sc e
    by simp
  have s1: "s ''custom_objects'' = self ''custom_objects''"
    using set_class_vars_frame [of "''custom_objects''" loaded self] sc
    by (simp add: reloaded_attributes_def)
  have s2: "s ''model_dir'' = self ''model_dir''"
    using set_class_vars_frame [of "''model_dir''" loaded self] sc
    by (simp add: reloaded_attributes_def)
  have args: "kwargs_get kw ''configuration_path'' = Some c
           \<and> kwargs_get kw ''hdf5_path'' = Some h
           \<and> kwargs_get kw ''preprocess_pipeline_path'' = Some p"
    using t chp checks_Inr_iff by simp
  from args s1 s2 eq show ?thesis by blast
qed

text \<open>
  C7. Every successful call to \<^verbatim>\<open>reload_from_standalone\<close> loads \<^verbatim>\<open>self.model\<close> from
  the supplied \<^verbatim>\<open>hdf5_path\<close>, copies that file to \<^verbatim>\<open>best.hdf5\<close> in \<^verbatim>\<open>model_dir\<close>, and
  loads \<^verbatim>\<open>self.preprocess_pipeline\<close> from the supplied \<^verbatim>\<open>preprocess_pipeline_path\<close> as
  the file system is after the copy, in that order: the calls made are the opening of the
  configuration file, the Keras load, the copy and the opening of the pipeline file.
\<close>

theorem reload_from_standalone_success_order:
  assumes r: "reload_from_standalone L kw self fs = r"
    and ok: "raised r = None"
  shows "\<exists>c h p custom_objects model_dir m weights pickled pipeline.
           kwargs_get kw ''configuration_path'' = Some c
         \<and> kwargs_get kw ''hdf5_path'' = Some h
         \<and> kwargs_get kw ''preprocess_pipeline_path'' = Some p
         \<and> self ''custom_objects'' = Some custom_objects
         \<and> self ''model_dir'' = Some (PStr model_dir)
         \<and> load_model_keras L fs h custom_objects = Inr m
         \<and> instance_after r ''model'' = Some m
         \<and> fs h = Some (File weights)
         \<and> disk_after r = fs(os_path_join model_dir ''best.hdf5'' \<mapsto> File weights)
         \<and> disk_after r p = Some (File pickled)
         \<and> pickle_load L pickled = Inr pipeline
         \<and> instance_after r ''preprocess_pipeline'' = Some pipeline
         \<and> calls r = [OpenFile c, LoadModelKeras h,
                       CopyFile h (os_path_join model_dir ''best.hdf5''), OpenFile p]"
proof -
  from reload_success_reaches_artifacts [of L kw self fs] r ok
  obtain c h p s where args: "kwargs_get kw ''configuration_path'' = Some c"
      "kwargs_get kw ''hdf5_path'' = Some h" "kwargs_get kw ''preprocess_pipeline_path'' = Some p"
    and s: "s ''custom_objects'' = self ''custom_objects''" "s ''model_dir'' = self ''model_dir''"
    and eq: "r = reload_artifacts L c h p s fs"
    by auto
  from reload_artifacts_success [of L c h p s fs] ok eq
  obtain custom_objects model_dir m weights pickled pipeline where
      A: "s ''custom_objects'' = Some custom_objects" "s ''model_dir'' = Some (PStr model_dir)"
         "load_model_keras L fs h custom_objects = Inr m" "fs h = Some (File weights)"
         "disk_after r = fs(os_path_join model_dir ''best.hdf5'' \<mapsto> File weights)"
         "disk_after r p = Some (File pickled)" "pickle_load L pickled = Inr pipeline"
         "instance_after r = s(''model'' \<mapsto> m, ''preprocess_pipeline'' \<mapsto> pipeline)"
         "calls r = [OpenFile c, LoadModelKeras h,
                     CopyFile h (os_path_join model_dir ''best.hdf5''), OpenFile p]"
    by auto
  have im: "instance_after r ''model'' = Some m"
    and ip: "instance_after r ''preprocess_pipeline'' = Some pipeline"
    unfolding A(8) by simp_all
  show ?thesis
    apply (rule exI [of _ c], rule exI [of _ h], rule exI [of _ p],
           rule exI [of _ custom_objects], rule exI [of _ model_dir], rule exI [of _ m],
           rule exI [of _ weights], rule exI [of _ pickled], rule exI [of _ pipeline])
    using args s A(1-7) A(9) im ip by simp
qed

theorem reload_from_standalone_success_order_witness:
  "raised (reload_from_standalone example_libs example_kwargs example_self example_fs) = None
   \<and> calls (reload_from_standalone example_libs example_kwargs example_self example_fs)
       = [OpenFile ''/in/configurations.json'', LoadModelKeras ''/in/best.hdf5'',
          CopyFile ''/in/best.hdf5'' ''/models/run/best.hdf5'',
          OpenFile ''/in/preprocess_pipeline.pkl'']
   \<and> disk_after (reload_from_standalone example_libs example_kwargs example_self example_fs)
         ''/models/run/best.hdf5'' = Some (File ''weights'')
   \<and> instance_after (reload_from_standalone example_libs example_kwargs example_self example_fs)
         ''model'' = Some (PObj 7)"
proof -
  have ok: "raised (reload_from_standalone example_libs example_kwargs example_self example_fs) = None"
    by (simp add: reload_defs example_defs)
  have k: "kwargs_get example_kwargs ''configuration_path'' = Some ''/in/configurations.json''"
      "kwargs_get example_kwargs ''hdf5_path'' = Some ''/in/best.hdf5''"
      "kwargs_get example_kwargs ''preprocess_pipeline_path'' = Some ''/in/preprocess_pipeline.pkl''"
    by (simp_all add: kwargs_get_def example_kwargs_def)
  have s: "example_self ''custom_objects'' = Some (PDict [])"
      "example_self ''model_dir'' = Some (PStr ''/models/run'')"
    by (simp_all add: example_self_def)
  have f: "example_fs ''/in/best.hdf5'' = Some (File ''weights'')"
    by (simp add: example_fs_def)
  have l: "load_model_keras example_libs example_fs ''/in/best.hdf5'' (PDict []) = Inr (PObj 7)"
    by (simp add: example_libs_def example_fs_def)
  have j: "os_path_join ''/models/run'' ''best.hdf5'' = ''/models/run/best.hdf5''"
    by (simp add: os_path_join_def)
  from reload_from_standalone_success_order [OF refl ok]
  show ?thesis using ok k s f l j by auto
qed


section \<open>The network built by \<^verbatim>\<open>_get_model\<close>\<close>

text \<open>
  C4. For every instance, \<^verbatim>\<open>_get_model\<close> returns a model whenever \<^verbatim>\<open>x_col\<close> has a
  length, \<^verbatim>\<open>keras_params\<close> is a dictionary and \<^verbatim>\<open>level_save\<close> is set, and every model it
  returns has the fixed topology and recipe: the input has dimension \<^verbatim>\<open>len(x_col)\<close>; two
  hidden blocks follow, each \<^verbatim>\<open>Dense(64, he_uniform)\<close>, \<^verbatim>\<open>BatchNormalization(momentum=0.9)\<close>,
  \<^verbatim>\<open>ELU(alpha=1.0)\<close>, \<^verbatim>\<open>Dropout(0.2)\<close>; the output is \<^verbatim>\<open>Dense(1, glorot_uniform)\<close>; the
  loss is \<^verbatim>\<open>mean_squared_error\<close> and the optimizer is Adam with the learning rate
  \<^verbatim>\<open>keras_params['learning_rate']\<close> if present, else 0.001, and the decay
  \<^verbatim>\<open>keras_params['decay']\<close> if present, else 0.0.
\<close>

theorem get_model_topology:
  "(\<forall>x_col n keras_params level_save.
       self ''x_col'' = Some x_col \<and> py_len x_col = Inr n
       \<and> self ''keras_params'' = Some (PDict keras_params)
       \<and> self ''level_save'' = Some level_save
       \<longrightarrow> (\<exists>evs m. get_model effective_level self = (evs, Inr m)))
   \<and> (\<forall>evs m. get_model effective_level self = (evs, Inr m) \<longrightarrow>
        (\<exists>x_col n keras_params out.
           self ''x_col'' = Some x_col \<and> py_len x_col = Inr n
           \<and> self ''keras_params'' = Some (PDict keras_params)
           \<and> inputs m = Input n
           \<and> outputs m = [out]
           \<and> input_of out = Input n
           \<and> layers_of out =
               [Dense 64 None ''he_uniform'', BatchNormalization 0.9, ELU 1.0, Dropout 0.2,
                Dense 64 None ''he_uniform'', BatchNormalization 0.9, ELU 1.0, Dropout 0.2,
                Dense 1 None ''glorot_uniform'']
           \<and> loss m = Some ''mean_squared_error''
           \<and> optimizer m =
               Some (Adam (case map_of keras_params ''learning_rate'' of
                             Some v \<Rightarrow> v | None \<Rightarrow> PFloat 0.001)
                          (case map_of keras_params ''decay'' of
                             Some v \<Rightarrow> v | None \<Rightarrow> PFloat 0.0))))"
proof (intro conjI allI impI)
  fix x_col n keras_params level_save
  assume "self ''x_col'' = Some x_col \<and> py_len x_col = Inr n
       \<and> self ''keras_params'' = Some (PDict keras_params)
       \<and> self ''level_save'' = Some level_save"
  then show "\<exists>evs m. get_model effective_level self = (evs, Inr m)"
    by (simp add: get_model_def Let_def)
next
  fix evs m
  assume r: "get_model effective_level self = (evs, Inr m)"
  from r obtain x_col where xc: "self ''x_col'' = Some x_col"
    by (cases "self ''x_col''") (simp_all add: get_model_def)
  from r xc obtain n where n: "py_len x_col = Inr n"
    by (cases "py_len x_col") (simp_all add: get_model_def)
  from r xc n obtain kp where kp: "self ''keras_params'' = Some kp"
    by (cases "self ''keras_params''") (simp_all add: get_model_def Let_def)
  from r xc n kp obtain keras_params where d: "kp = PDict keras_params"
    by (cases kp) (simp_all add: get_model_def Let_def)
  from r xc n kp d obtain level_save where ls: "self ''level_save'' = Some level_save"
    by (cases "self ''level_save''") (simp_all add: get_model_def Let_def)
  let ?out = "Apply (Dense 1 None ''glorot_uniform'')
               (Apply (Dropout 0.2) (Apply (ELU 1.0) (Apply (BatchNormalization 0.9)
               (Apply (Dense 64 None ''he_uniform'')
               (Apply (Dropout 0.2) (Apply (ELU 1.0) (Apply (BatchNormalization 0.9)
               (Apply (Dense 64 None ''he_uniform'') (Input n)))))))))"
  have m: "m = compile (Model (Input n) [?out])
                 (Adam (case map_of keras_params ''learning_rate'' of
                             Some v \<Rightarrow> v | None \<Rightarrow> PFloat 0.001)
                       (case map_of keras_params ''decay'' of
                             Some v \<Rightarrow> v | None \<Rightarrow> PFloat 0.0))
                 ''mean_squared_error''
                 [MetricName ''mean_squared_error'', MetricName ''mean_absolute_error'',
                  MetricFunction ''utils_deep_keras.root_mean_squared_error'']"
    using r xc n kp d ls by (simp add: get_model_def Let_def)
  show "\<exists>x_col n keras_params out.
           self ''x_col'' = Some x_col \<and> py_len x_col = Inr n
           \<and> self ''keras_params'' = Some (PDict keras_params)
           \<and> inputs m = Input n
           \<and> outputs m = [out]
           \<and> input_of out = Input n
           \<and> layers_of out =
               [Dense 64 None ''he_uniform'', BatchNormalization 0.9, ELU 1.0, Dropout 0.2,
                Dense 64 None ''he_uniform'', BatchNormalization 0.9, ELU 1.0, Dropout 0.2,
                Dense 1 None ''glorot_uniform'']
           \<and> loss m = Some ''mean_squared_error''
           \<and> optimizer m =
               Some (Adam (case map_of keras_params ''learning_rate'' of
                             Some v \<Rightarrow> v | None \<Rightarrow> PFloat 0.001)
                          (case map_of keras_params ''decay'' of
                             Some v \<Rightarrow> v | None \<Rightarrow> PFloat 0.0))"
    apply (rule exI [of _ x_col], rule exI [of _ n], rule exI [of _ keras_params],
           rule exI [of _ ?out])
    using xc n kp d by (simp add: m compile_def Model_def)
qed

theorem get_model_topology_witness:
  "\<exists>evs m. get_model 20 example_self = (evs, Inr m)
     \<and> inputs m = Input 1
     \<and> loss m = Some ''mean_squared_error''
     \<and> optimizer m = Some (Adam (PFloat 0.01) (PFloat 0.0))"
proof -
  have a: "example_self ''x_col'' = Some (PList [PStr ''age''])"
      "py_len (PList [PStr ''age'']) = Inr 1"
      "example_self ''keras_params'' = Some (PDict [(''learning_rate'', PFloat 0.01)])"
      "example_self ''level_save'' = Some (PStr ''HIGH'')"
    by (simp_all add: example_self_def)
  from get_model_topology [of example_self 20] a
  obtain evs m where r: "get_model 20 example_self = (evs, Inr m)" by blast
  from get_model_topology [of example_self 20] r a
  show ?thesis by auto
qed


section \<open>The classifier function and the explanations\<close>

text \<open>
  C6. For every list of texts, \<^verbatim>\<open>classifier_fn\<close> looks the preprocessing step up by
  \<^verbatim>\<open>model_conf['preprocess_str']\<close> when the configuration has that key and by
  \<^verbatim>\<open>no_preprocess\<close> otherwise, applies the preprocessor it gets to the texts, and returns
  \<^verbatim>\<open>predict_proba\<close> of the model applied to the preprocessed texts.
\<close>

theorem classifier_fn_preprocess_then_predict:
  assumes key: "model_conf self ''preprocess_str'' = Some k
                \<or> (model_conf self ''preprocess_str'' = None \<and> k = PStr ''no_preprocess'')"
    and pre: "get_preprocessor L k = Inr preprocessor"
    and prep: "preprocessor content_list = Inr content_prep"
    and pp: "model self ''predict_proba'' = Some (Callable predict_proba)"
  shows "classifier_fn L self content_list = predict_proba content_prep"
proof -
  have "(case model_conf self ''preprocess_str'' of Some v \<Rightarrow> v | None \<Rightarrow> PStr ''no_preprocess'') = k"
    using key by auto
  then show ?thesis
    using pre prep pp by (simp add: classifier_fn_def)
qed

theorem classifier_fn_preprocess_then_predict_witness:
  "classifier_fn example_lime example_explainer (PList [PStr ''some text''])
     = Inr (PList [PList [PFloat 0.25, PFloat 0.75]])
   \<and> classifier_fn example_lime (example_explainer\<lparr>model_conf := Map.empty\<rparr>) (PList [PStr ''some text''])
     = Inr (PList [PList [PFloat 0.25, PFloat 0.75]])"
  using classifier_fn_preprocess_then_predict
          [of example_explainer "PStr ''drop_all''" example_lime "\<lambda>texts. Inr (PList [])"
              "PList [PStr ''some text'']" "PList []"
              "\<lambda>texts. Inr (PList [PList [PFloat 0.25, PFloat 0.75]])"]
        classifier_fn_preprocess_then_predict
          [of "example_explainer\<lparr>model_conf := Map.empty\<rparr>" "PStr ''no_preprocess''" example_lime
              "\<lambda>texts. Inr texts"
              "PList [PStr ''some text'']" "PList [PStr ''some text'']"
              "\<lambda>texts. Inr (PList [PList [PFloat 0.25, PFloat 0.75]])"]
  by (simp add: example_explainer_def example_lime_def example_model_def)

lemma classifier_fn_ignores_index:
  "classifier_fn L (self\<lparr>current_class_or_label_index := i\<rparr>) = classifier_fn L self"
  unfolding classifier_fn_def by (rule ext) (simp split: sum.splits)

text \<open>
  C10. Called with \<^verbatim>\<open>class_or_label_index\<close> equal to \<^verbatim>\<open>None\<close>, \<^verbatim>\<open>explain_instance\<close>
  (and so \<^verbatim>\<open>explain_instance_as_html\<close> and \<^verbatim>\<open>explain_instance_as_list\<close>) stores the index
  1 and asks LIME for the label 1, whatever index was stored before, the 0 of the
  constructor included; \<^verbatim>\<open>explain_instance_as_list\<close> passes that same index 1 as the
  label to \<^verbatim>\<open>as_list\<close>.
\<close>

theorem explain_instance_None_uses_index_1:
  "explain_instance L self content None max_features =
     (self\<lparr>current_class_or_label_index := 1\<rparr>,
      lime_explain_instance L (explainer self) content (classifier_fn L self) [1] max_features)
   \<and> explain_instance_as_html L self content None max_features =
     (self\<lparr>current_class_or_label_index := 1\<rparr>,
      case lime_explain_instance L (explainer self) content (classifier_fn L self) [1] max_features of
        Inl e \<Rightarrow> Inl e
      | Inr explanation \<Rightarrow> as_html L explanation)
   \<and> explain_instance_as_list L self content None max_features =
     (self\<lparr>current_class_or_label_index := 1\<rparr>,
      case lime_explain_instance L (explainer self) content (classifier_fn L self) [1] max_features of
        Inl e \<Rightarrow> Inl e
      | Inr explanation \<Rightarrow> as_list L explanation 1)
   \<and> explain_instance L (self\<lparr>current_class_or_label_index := stored\<rparr>) content None max_features
       = explain_instance L self content None max_features"
  by (simp add: explain_instance_def explain_instance_as_html_def explain_instance_as_list_def
        classifier_fn_ignores_index split: sum.splits)

theorem explain_instance_None_uses_index_1_witness:
  "current_class_or_label_index example_explainer = 0
   \<and> explain_instance example_lime example_explainer ''some text'' None 15
       = (example_explainer\<lparr>current_class_or_label_index := 1\<rparr>, Inr ([1], 15))
   \<and> snd (explain_instance_as_list example_lime example_explainer ''some text'' None 15)
       = Inr (PList [])"
  using explain_instance_None_uses_index_1 [of example_lime example_explainer "''some text''" 15]
  by (simp add: example_lime_def example_explainer_def)


end
